theory Spec2Isabelle
  imports Complex_Main
begin

section \<open>Python values\<close>

text \<open>
  The driver \<open>rs_ngmo2.py\<close> is dynamically typed: a setter such as
  \<open>Channel.voltage\<close> takes whatever the caller passes and sends it to a validator, which
  looks at its type with \<open>isinstance\<close>. The values are modelled by one datatype.

  A Python float is a double or one of the three special values. The model keeps the
  exact value of a finite double as a rational and does not round the results of
  arithmetic to 53 bits. The text that \<open>str\<close> prints for a float (the shortest decimal
  that reads back as the same double) is not computed; a float value carries it.
  Strings are ASCII strings.
\<close>

datatype exn_kind = ValueError | TypeError | OverflowError | ZeroDivisionError | KeyError | VisaIOError

type_synonym exn = "exn_kind \<times> string"

datatype pyfloat = Fin rat | PosInf | NegInf | NaN

datatype pyval =
    PNone
  | PBool bool
  | PInt int
  | PFloat pyfloat string  \<comment> \<open>the value, and what \<open>str\<close> prints for it\<close>
  | PStr string
  | PExn exn_kind string  \<comment> \<open>an exception object with its message\<close>
  | PObj string string  \<comment> \<open>any other (non-callable) object: the name of its class, and what \<open>str\<close> prints\<close>

text \<open>A number written in the source, as the bounds of the ranges are.\<close>

datatype pynum = NInt int | NFloat pyfloat string

subsection \<open>Strings\<close>

definition sq :: string where
  "sq = [CHR 0x27]"

definition dq :: string where
  "dq = [CHR 0x22]"

definition nl :: string where
  "nl = [CHR 0x0A]"

definition upper_letters :: string where
  "upper_letters = ''ABCDEFGHIJKLMNOPQRSTUVWXYZ''"

definition lower_letters :: string where
  "lower_letters = ''abcdefghijklmnopqrstuvwxyz''"

definition lower_char :: "char \<Rightarrow> char" where
  "lower_char c = (case map_of (zip upper_letters lower_letters) c of Some d \<Rightarrow> d | None \<Rightarrow> c)"

definition upper_char :: "char \<Rightarrow> char" where
  "upper_char c = (case map_of (zip lower_letters upper_letters) c of Some d \<Rightarrow> d | None \<Rightarrow> c)"

definition py_lower :: "string \<Rightarrow> string" where
  "py_lower s = map lower_char s"

definition py_upper :: "string \<Rightarrow> string" where
  "py_upper s = map upper_char s"

text \<open>\<open>x in y\<close> on two strings: \<open>x\<close> occurs in \<open>y\<close> as a contiguous piece.\<close>

fun starts_with :: "string \<Rightarrow> string \<Rightarrow> bool" where
  "starts_with [] ys = True"
| "starts_with (x # xs) [] = False"
| "starts_with (x # xs) (y # ys) = (x = y \<and> starts_with xs ys)"

fun str_contains :: "string \<Rightarrow> string \<Rightarrow> bool" where
  "str_contains x [] = (x = [])"
| "str_contains x (c # cs) = (starts_with x (c # cs) \<or> str_contains x cs)"

text \<open>\<open>str\<close> of an integer.\<close>

definition digit_char :: "nat \<Rightarrow> char" where
  "digit_char d = ''0123456789'' ! (d mod 10)"

function str_nat :: "nat \<Rightarrow> string" where
  "str_nat n = (if n < 10 then [digit_char n] else str_nat (n div 10) @ [digit_char (n mod 10)])"
  by pat_completeness auto
termination
  by (relation "measure (\<lambda>n. n)") auto

definition str_int :: "int \<Rightarrow> string" where
  "str_int i = (if i < 0 then ''-'' @ str_nat (nat (- i)) else str_nat (nat i))"

text \<open>
  \<open>repr\<close> of a string: in single quotes, unless the string holds a single quote and no
  double quote; the quote in use and the backslash are escaped, control characters are
  written as escapes.
\<close>

definition hex_char :: "nat \<Rightarrow> char" where
  "hex_char d = ''0123456789abcdef'' ! (d mod 16)"

definition repr_char :: "char \<Rightarrow> char \<Rightarrow> string" where
  "repr_char q c =
     (if c = q \<or> c = CHR 0x5C then [CHR 0x5C, c]
      else if c = CHR 0x09 then [CHR 0x5C, CHR ''t'']
      else if c = CHR 0x0A then [CHR 0x5C, CHR ''n'']
      else if c = CHR 0x0D then [CHR 0x5C, CHR ''r'']
      else if (of_char c :: nat) < 32 \<or> (of_char c :: nat) = 127
        then [CHR 0x5C, CHR ''x'', hex_char (of_char c div 16), hex_char (of_char c mod 16)]
      else [c])"

definition repr_str :: "string \<Rightarrow> string" where
  "repr_str s =
     (let q = (if CHR 0x27 \<in> set s \<and> CHR 0x22 \<notin> set s then CHR 0x22 else CHR 0x27)
      in [q] @ concat (map (repr_char q) s) @ [q])"

text \<open>\<open>repr\<close> of a tuple, from the \<open>repr\<close>s of its entries.\<close>

fun join :: "string \<Rightarrow> string list \<Rightarrow> string" where
  "join sep [] = []"
| "join sep [x] = x"
| "join sep (x # y # ys) = x @ sep @ join sep (y # ys)"

definition repr_tuple :: "string list \<Rightarrow> string" where
  "repr_tuple rs =
     (case rs of
        [] \<Rightarrow> ''()''
      | [r] \<Rightarrow> ''('' @ r @ '',)''
      | _ \<Rightarrow> ''('' @ join '', '' rs @ '')'')"

definition repr_num :: "pynum \<Rightarrow> string" where
  "repr_num n = (case n of NInt i \<Rightarrow> str_int i | NFloat f s \<Rightarrow> s)"

subsection \<open>Types and \<open>str\<close> of a value\<close>

definition type_name :: "pyval \<Rightarrow> string" where
  "type_name v =
     (case v of
        PNone \<Rightarrow> ''NoneType''
      | PBool b \<Rightarrow> ''bool''
      | PInt i \<Rightarrow> ''int''
      | PFloat f s \<Rightarrow> ''float''
      | PStr s \<Rightarrow> ''str''
      | PExn ValueError m \<Rightarrow> ''ValueError''
      | PExn TypeError m \<Rightarrow> ''TypeError''
      | PExn OverflowError m \<Rightarrow> ''OverflowError''
      | PExn ZeroDivisionError m \<Rightarrow> ''ZeroDivisionError''
      | PExn KeyError m \<Rightarrow> ''KeyError''
      | PExn VisaIOError m \<Rightarrow> ''pyvisa.errors.VisaIOError''
      | PObj c s \<Rightarrow> c)"

text \<open>What \<open>'{}'.format\<close> prints for a class: \<open><class 'int'>\<close>.\<close>

definition class_text :: "string \<Rightarrow> string" where
  "class_text c = ''<class '' @ sq @ c @ sq @ ''>''"

definition py_str :: "pyval \<Rightarrow> string" where
  "py_str v =
     (case v of
        PNone \<Rightarrow> ''None''
      | PBool b \<Rightarrow> (if b then ''True'' else ''False'')
      | PInt i \<Rightarrow> str_int i
      | PFloat f s \<Rightarrow> s
      | PStr s \<Rightarrow> s
      | PExn k m \<Rightarrow> (if k = KeyError then repr_str m else m)
      | PObj c s \<Rightarrow> s)"

text \<open>\<open>isinstance(v, (ValueError, TypeError))\<close>, the test of \<open>Command\<close> on a validator's result.\<close>

definition is_validation_error :: "pyval \<Rightarrow> bool" where
  "is_validation_error v = (case v of PExn k m \<Rightarrow> k = ValueError \<or> k = TypeError | _ \<Rightarrow> False)"

subsection \<open>Floats\<close>

text \<open>
  \<open>float(n)\<close> of an integer raises OverflowError when \<open>n\<close> rounds to a magnitude beyond the
  largest double, \<open>2^1024 - 2^971\<close>: from \<open>2^1024 - 2^970\<close> on.
\<close>

definition float_of_int :: "int \<Rightarrow> exn + pyfloat" where
  "float_of_int i =
     (if \<bar>i\<bar> \<ge> 2 ^ 1024 - 2 ^ 970
      then Inl (OverflowError, ''int too large to convert to float'')
      else Inr (Fin (of_int i)))"

text \<open>Rounding to the nearest integer, a tie to the even one, as \<open>round\<close> does on the exact value.\<close>

definition round_half_even :: "rat \<Rightarrow> int" where
  "round_half_even x =
     (let f = \<lfloor>x\<rfloor>; d = x - of_int f
      in if d < 1 / 2 then f
         else if 1 / 2 < d then f + 1
         else if even f then f else f + 1)"

definition py_round :: "pyfloat \<Rightarrow> nat \<Rightarrow> pyfloat" where
  "py_round x ndigits =
     (case x of
        Fin r \<Rightarrow> Fin (of_int (round_half_even (r * 10 ^ ndigits)) / 10 ^ ndigits)
      | _ \<Rightarrow> x)"

text \<open>\<open>a <= b\<close> on floats: false when either is a NaN.\<close>

fun float_le :: "pyfloat \<Rightarrow> pyfloat \<Rightarrow> bool" where
  "float_le NaN b = False"
| "float_le a NaN = False"
| "float_le NegInf b = True"
| "float_le a PosInf = True"
| "float_le PosInf b = False"
| "float_le a NegInf = False"
| "float_le (Fin a) (Fin b) = (a \<le> b)"

text \<open>
  The value of a bound in a comparison with a float: Python compares an int with a
  float by their exact values.
\<close>

definition num_val :: "pynum \<Rightarrow> pyfloat" where
  "num_val n = (case n of NInt i \<Rightarrow> Fin (of_int i) | NFloat f s \<Rightarrow> f)"

section \<open>Validators (class \<open>Validate\<close>)\<close>

text \<open>
  A validator returns the canonical text of an accepted value, or an exception object
  that it does not raise. The result is \<open>Inr\<close> of the returned value; \<open>Inl\<close> is an
  exception that the validator raises after all, which only \<open>float\<close> does.
\<close>

definition isinstance_int :: "pyval \<Rightarrow> bool" where
  "isinstance_int v = (case v of PInt i \<Rightarrow> True | PBool b \<Rightarrow> True | _ \<Rightarrow> False)"

definition isinstance_float_int :: "pyval \<Rightarrow> bool" where
  "isinstance_float_int v = (case v of PFloat f s \<Rightarrow> True | _ \<Rightarrow> isinstance_int v)"

definition isinstance_str :: "pyval \<Rightarrow> bool" where
  "isinstance_str v = (case v of PStr s \<Rightarrow> True | _ \<Rightarrow> False)"

text \<open>The integer that an \<open>int\<close> (or a \<open>bool\<close>, its subclass) stands for.\<close>

definition int_of :: "pyval \<Rightarrow> int" where
  "int_of v = (case v of PInt i \<Rightarrow> i | PBool b \<Rightarrow> (if b then 1 else 0) | _ \<Rightarrow> 0)"

text \<open>\<open>float(value)\<close> for a value that is a float or an int.\<close>

definition py_float :: "pyval \<Rightarrow> exn + pyfloat" where
  "py_float v = (case v of PFloat f s \<Rightarrow> Inr f | _ \<Rightarrow> float_of_int (int_of v))"

definition str_of :: "pyval \<Rightarrow> string" where
  "str_of v = (case v of PStr s \<Rightarrow> s | _ \<Rightarrow> [])"

text \<open>The three tests \<open>float_range\<close>, \<open>int_range\<close> and \<open>find_element\<close>.\<close>

definition float_range :: "pyfloat \<Rightarrow> pynum \<times> pynum \<Rightarrow> bool" where
  "float_range x y = (float_le (num_val (fst y)) x \<and> float_le x (num_val (snd y)))"

definition int_range :: "int \<Rightarrow> int \<times> int \<Rightarrow> bool" where
  "int_range x y = (fst y \<le> x \<and> x < snd y + 1)"

definition find_element :: "string \<Rightarrow> string \<Rightarrow> bool" where
  "find_element x y = str_contains x y"

text \<open>The two tuples as \<open>format\<close> and \<open>str\<close> print them.\<close>

definition repr_range :: "pynum \<times> pynum \<Rightarrow> string" where
  "repr_range y = repr_tuple [repr_num (fst y), repr_num (snd y)]"

definition repr_int_range :: "int \<times> int \<Rightarrow> string" where
  "repr_int_range y = repr_tuple [str_int (fst y), str_int (snd y)]"

definition repr_strs :: "string list \<Rightarrow> string" where
  "repr_strs xs = repr_tuple (map repr_str xs)"

definition float_rng_and_str_tuples ::
  "(pynum \<times> pynum) \<times> string list \<Rightarrow> pyval \<Rightarrow> nat \<Rightarrow> exn + pyval" where
  "float_rng_and_str_tuples validation_set value round_to =
     (if isinstance_float_int value then
        (case py_float value of
           Inl e \<Rightarrow> Inl e
         | Inr x \<Rightarrow>
             (let val = py_round x round_to
              in if float_range val (fst validation_set) then Inr (PStr (py_str value))
                 else Inr (PExn ValueError
                   (''ValueError!'' @ nl @ ''Not in range:(float, int) ''
                    @ repr_range (fst validation_set) @ nl
                    @ ''or in set:(str) '' @ repr_strs (snd validation_set)))))
      else if isinstance_str value then
        (let val = py_lower (str_of value)
         in if find_element val (py_lower (repr_strs (snd validation_set)))
            then Inr (PStr (py_upper val))
            else Inr (PExn ValueError
              (''ValueError!'' @ nl @ ''Not in set:(str) ''
               @ repr_strs (snd validation_set) @ nl
               @ ''or in range:(float, int) '' @ repr_range (fst validation_set))))
      else Inr (PExn TypeError
        (''TypeError!'' @ nl @ ''Received type: '' @ class_text (type_name value) @ nl
         @ ''Valid types: '' @ class_text ''int'' @ '', '' @ class_text ''float''
         @ '', '' @ class_text ''str'')))"

definition int_rng_and_str_tuples ::
  "(int \<times> int) \<times> string list \<Rightarrow> pyval \<Rightarrow> exn + pyval" where
  "int_rng_and_str_tuples validation_set value =
     (if isinstance_int value then
        (let val = int_of value
         in if int_range val (fst validation_set) then Inr (PStr (py_str value))
            else Inr (PExn ValueError
              (''ValueError!'' @ nl @ ''Not in range:(int) ''
               @ repr_int_range (fst validation_set) @ nl
               @ ''or in set:(str) '' @ repr_strs (snd validation_set))))
      else if isinstance_str value then
        (let val = py_lower (str_of value)
         in if find_element val (py_lower (repr_strs (snd validation_set)))
            then Inr (PStr (py_upper val))
            else Inr (PExn ValueError
              (''ValueError!'' @ nl @ ''Not in set:(str) ''
               @ repr_strs (snd validation_set) @ nl
               @ ''or in range:(int) '' @ repr_int_range (fst validation_set))))
      else Inr (PExn TypeError
        (''TypeError!'' @ nl @ ''Received type: '' @ class_text (type_name value) @ nl
         @ ''Valid types: '' @ class_text ''int'' @ '', '' @ class_text ''str'')))"

definition str_tuple :: "string list \<Rightarrow> pyval \<Rightarrow> exn + pyval" where
  "str_tuple validation_set value =
     (if isinstance_str value then
        (let val = py_lower (str_of value)
         in if find_element val (py_lower (repr_strs validation_set))
            then Inr (PStr (py_upper val))
            else Inr (PExn ValueError
              (''ValueError!'' @ nl @ ''Not in set:(str) '' @ repr_strs validation_set)))
      else Inr (PExn TypeError
        (''TypeError!'' @ nl @ ''Received type: '' @ class_text (type_name value) @ nl
         @ ''Valid types: '' @ class_text ''str'')))"

definition int_rng_tuple :: "int \<times> int \<Rightarrow> pyval \<Rightarrow> exn + pyval" where
  "int_rng_tuple validation_set value =
     (if isinstance_int value then
        (let val = int_of value
         in if int_range val validation_set then Inr (PStr (py_str value))
            else Inr (PExn ValueError
              (''ValueError!'' @ nl @ ''Not in range:(int) '' @ repr_int_range validation_set)))
      else Inr (PExn TypeError
        (''TypeError!'' @ nl @ ''Received type: '' @ class_text (type_name value) @ nl
         @ ''Valid types: '' @ class_text ''int'')))"

subsection \<open>The domains of the parameters\<close>

text \<open>\<open>ValidateChannel.voltage\<close>.\<close>

definition voltage_values :: "(pynum \<times> pynum) \<times> string list" where
  "voltage_values =
     ((NFloat (Fin 0) ''0.0'', NFloat (Fin 15) ''15.0''), [''min'', ''max'', ''def'', ''default''])"

definition voltage :: "pyval \<Rightarrow> exn + pyval" where
  "voltage value = float_rng_and_str_tuples voltage_values value 3"

text \<open>\<open>ValidateLog\<close>.\<close>

definition validate_sample_length :: "pyval \<Rightarrow> exn + pyval" where
  "validate_sample_length value =
     int_rng_and_str_tuples ((1, 5000), [''min'', ''max'', ''def'', ''default'']) value"

definition validate_sample_channel :: "pyval \<Rightarrow> exn + pyval" where
  "validate_sample_channel value =
     str_tuple [''current'', ''curr'', ''dvm'', ''min'', ''max'', ''def'', ''default''] value"

definition validate_sample_type :: "pyval \<Rightarrow> exn + pyval" where
  "validate_sample_type value =
     str_tuple [''aver'', ''average'', ''peak'', ''min'', ''high'', ''low'', ''rms''] value"

definition validate_sample_interval :: "pyval \<Rightarrow> exn + pyval" where
  "validate_sample_interval value =
     float_rng_and_str_tuples
       ((NFloat (Fin (1 / 100000)) ''1e-05'', NFloat (Fin 1) ''1.0''),
        [''min'', ''max'', ''def'', ''default'']) value 5"

text \<open>\<open>ValidateRegister\<close>.\<close>

definition register_8 :: "pyval \<Rightarrow> exn + pyval" where
  "register_8 value = int_rng_tuple (0, 128) value"

definition register_16 :: "pyval \<Rightarrow> exn + pyval" where
  "register_16 value = int_rng_tuple (0, 65535) value"

section \<open>The bus\<close>

text \<open>
  The instrument behind the pyvisa resource is a state machine of an arbitrary state
  type \<open>'d\<close>: a write changes its state, a query changes it and answers one line, and
  \<open>wait_for_srq\<close> either returns (with a new state) or raises pyvisa's timeout error
  (\<open>None\<close>). Transport failures of write and query are not modelled.
  The world is the instrument's state, the trace of the bus operations made so far, each
  query with the answer it got, and the lines printed on the console.
\<close>

record 'd bus =
  write_fn :: "string \<Rightarrow> 'd \<Rightarrow> 'd"
  query_fn :: "string \<Rightarrow> 'd \<Rightarrow> string \<times> 'd"
  wait_for_srq_fn :: "nat \<Rightarrow> 'd \<Rightarrow> 'd option"

datatype bus_op = BusWrite string | BusQuery string string | BusWaitSrq nat

record 'd world =
  instrument :: 'd
  bus_log :: "bus_op list"
  stdout :: "string list"

definition bus_write :: "'d bus \<Rightarrow> string \<Rightarrow> 'd world \<Rightarrow> 'd world" where
  "bus_write bus command w =
     w\<lparr>instrument := write_fn bus command (instrument w),
       bus_log := bus_log w @ [BusWrite command]\<rparr>"

definition bus_query :: "'d bus \<Rightarrow> string \<Rightarrow> 'd world \<Rightarrow> string \<times> 'd world" where
  "bus_query bus command w =
     (let (answer, d) = query_fn bus command (instrument w)
      in (answer, w\<lparr>instrument := d, bus_log := bus_log w @ [BusQuery command answer]\<rparr>))"

definition bus_wait_for_srq :: "'d bus \<Rightarrow> nat \<Rightarrow> 'd world \<Rightarrow> (exn + unit) \<times> 'd world" where
  "bus_wait_for_srq bus timeout w =
     (let w1 = w\<lparr>bus_log := bus_log w @ [BusWaitSrq timeout]\<rparr>
      in case wait_for_srq_fn bus timeout (instrument w) of
           None \<Rightarrow> (Inl (VisaIOError, ''VI_ERROR_TMO''), w1)
         | Some d \<Rightarrow> (Inr (), w1\<lparr>instrument := d\<rparr>))"

definition print :: "string \<Rightarrow> 'd world \<Rightarrow> 'd world" where
  "print line w = w\<lparr>stdout := stdout w @ [line]\<rparr>"

section \<open>The command dispatcher (class \<open>Command\<close>)\<close>

datatype ansi = HEADER | OKBLUE | OKGREEN | WARNING | FAIL | ENDC | BOLD | UNDERLINE

definition ansi_esc_seq :: "ansi \<Rightarrow> string" where
  "ansi_esc_seq k =
     (case k of
        HEADER \<Rightarrow> CHR 0x1B # ''[95m''
      | OKBLUE \<Rightarrow> CHR 0x1B # ''[94m''
      | OKGREEN \<Rightarrow> CHR 0x1B # ''[92m''
      | WARNING \<Rightarrow> CHR 0x1B # ''[93m''
      | FAIL \<Rightarrow> CHR 0x1B # ''[91m''
      | ENDC \<Rightarrow> CHR 0x1B # ''[0m''
      | BOLD \<Rightarrow> CHR 0x1B # ''[1m''
      | UNDERLINE \<Rightarrow> CHR 0x1B # ''[4m'')"

definition error_text :: "ansi \<Rightarrow> pyval \<Rightarrow> string" where
  "error_text warning_type error_type =
     ansi_esc_seq warning_type @ py_str error_type @ ansi_esc_seq ENDC"

text \<open>
  A dictionary of cached values is keyed by strings; \<open>value_key\<close> defaults to \<open>None\<close>,
  which is a key as well. The dictionary is an object shared with the caller:
  \<open>read_write\<close> returns it as it is after the call.
\<close>

datatype pykey = KNone | KStr string

type_synonym cache = "pykey \<rightharpoonup> string"

text \<open>
  What a caller binds to the parameter \<open>validator\<close>: nothing, a validator, or an object
  that cannot be called.
\<close>

datatype validator_arg = VNone | VFun "pyval \<Rightarrow> exn + pyval" | VObj pyval

text \<open>
  The three statements that both successful branches of \<open>read_write\<close> end with: extend
  the write command by \<open>str(value)\<close>, send it, and store the answer of a fresh query if
  a dictionary was given.
\<close>

definition send_and_requery ::
  "'d bus \<Rightarrow> string \<Rightarrow> string \<Rightarrow> pyval \<Rightarrow> cache option \<Rightarrow> pykey \<Rightarrow> 'd world
     \<Rightarrow> (exn + pyval) \<times> cache option \<times> 'd world" where
  "send_and_requery bus query write value value_dict value_key w =
     (let write1 = write @ '' '' @ py_str value;
          w1 = bus_write bus write1 w
      in case value_dict of
           None \<Rightarrow> (Inr PNone, None, w1)
         | Some d \<Rightarrow>
             (let (answer, w2) = bus_query bus query w1
              in (Inr PNone, Some (d(value_key \<mapsto> answer)), w2)))"

definition read_write ::
  "'d bus \<Rightarrow> string \<Rightarrow> string \<Rightarrow> validator_arg \<Rightarrow> pyval \<Rightarrow> cache option \<Rightarrow> pykey \<Rightarrow> 'd world
     \<Rightarrow> (exn + pyval) \<times> cache option \<times> 'd world" where
  "read_write bus query write validator value value_dict value_key w =
     (if value = PNone then
        (let (answer, w1) = bus_query bus query w in (Inr (PStr answer), value_dict, w1))
      else
        (case validator of
           VFun f \<Rightarrow>
             (case f value of
                Inl e \<Rightarrow> (Inl e, value_dict, w)
              | Inr val \<Rightarrow>
                  if is_validation_error val
                  then (Inr PNone, value_dict, print (error_text WARNING val) w)
                  else send_and_requery bus query write value value_dict value_key w)
         | VObj v \<Rightarrow>
             (Inl (TypeError, sq @ type_name v @ sq @ '' object is not callable''), value_dict, w)
         | VNone \<Rightarrow> send_and_requery bus query write value value_dict value_key w))"

text \<open>
  \<open>Command.read\<close> and \<open>Command.write\<close> (\<open>write\<close> alone is a keyword of Isabelle). The
  second parameter of \<open>Command.write\<close> is the result of a validation, not a validator.\<close>

definition command_read :: "'d bus \<Rightarrow> string \<Rightarrow> 'd world \<Rightarrow> string \<times> 'd world" where
  "command_read bus query w = bus_query bus query w"

definition command_write :: "'d bus \<Rightarrow> string \<Rightarrow> pyval \<Rightarrow> 'd world \<Rightarrow> 'd world" where
  "command_write bus command validator w =
     (if validator = PNone then bus_write bus command w
      else if is_validation_error validator then print (error_text WARNING validator) w
      else bus_write bus command w)"

section \<open>Common commands and status registers (classes \<open>Common\<close>, \<open>Status\<close>)\<close>

text \<open>
  A method that hands no dictionary to \<open>read_write\<close> returns the result and the world.
\<close>

definition no_cache :: "(exn + pyval) \<times> cache option \<times> 'd world \<Rightarrow> (exn + pyval) \<times> 'd world" where
  "no_cache r = (fst r, snd (snd r))"

text \<open>An argument passed in the position of \<open>validator\<close>.\<close>

definition as_validator :: "pyval \<Rightarrow> validator_arg" where
  "as_validator v = (if v = PNone then VNone else VObj v)"

definition sre :: "'d bus \<Rightarrow> pyval \<Rightarrow> 'd world \<Rightarrow> (exn + pyval) \<times> 'd world" where
  "sre bus reg_value w =
     no_cache (read_write bus ''*SRE?'' ''*SRE'' (VFun register_8) reg_value None KNone w)"

definition ese :: "'d bus \<Rightarrow> pyval \<Rightarrow> 'd world \<Rightarrow> (exn + pyval) \<times> 'd world" where
  "ese bus reg_value w =
     no_cache (read_write bus ''*ESE?'' ''*ESE'' (VFun register_8) reg_value None KNone w)"

definition opc :: "'d bus \<Rightarrow> pyval \<Rightarrow> 'd world \<Rightarrow> (exn + pyval) \<times> 'd world" where
  "opc bus reg_value w =
     no_cache (read_write bus ''*OPC?'' ''*OPC'' (as_validator reg_value) PNone None KNone w)"

definition wait :: "'d bus \<Rightarrow> 'd world \<Rightarrow> 'd world" where
  "wait bus w = command_write bus ''*WAI'' PNone w"

definition clear_error_queue :: "'d bus \<Rightarrow> 'd world \<Rightarrow> 'd world" where
  "clear_error_queue bus w = command_write bus '':SYST:CLE'' PNone w"

definition get_meas_event_reg :: "'d bus \<Rightarrow> 'd world \<Rightarrow> string \<times> 'd world" where
  "get_meas_event_reg bus w = command_read bus '':STAT:MEAS:EVEN?'' w"

definition meas_enable_reg :: "'d bus \<Rightarrow> pyval \<Rightarrow> 'd world \<Rightarrow> (exn + pyval) \<times> 'd world" where
  "meas_enable_reg bus reg_value w =
     no_cache (read_write bus '':STAT:MEAS:ENAB?'' '':STAT:MEAS:ENAB''
       (VFun register_16) reg_value None KNone w)"

section \<open>Reading numbers from text\<close>

text \<open>
  \<open>int(s)\<close> and \<open>float(s)\<close> on a string: blanks at both ends are dropped; a sign may
  come first; digits may be grouped by single underscores. \<open>float\<close> also reads
  \<open>inf\<close>, \<open>infinity\<close> and \<open>nan\<close> in any case. A text that is no number raises ValueError.
  A finite decimal is read as its exact value.
\<close>

definition is_space :: "char \<Rightarrow> bool" where
  "is_space c = ((9 \<le> (of_char c :: nat) \<and> (of_char c :: nat) \<le> 13)
     \<or> (28 \<le> (of_char c :: nat) \<and> (of_char c :: nat) \<le> 32))"

definition py_strip :: "string \<Rightarrow> string" where
  "py_strip s = rev (dropWhile is_space (rev (dropWhile is_space s)))"

definition is_digit :: "char \<Rightarrow> bool" where
  "is_digit c = (c \<in> set ''0123456789'')"

definition digit_val :: "char \<Rightarrow> nat" where
  "digit_val c = (case map_of (zip ''0123456789'' [0 ..< 10]) c of Some d \<Rightarrow> d | None \<Rightarrow> 0)"

text \<open>
  The digits of a digit part, without its underscores; \<open>None\<close> when the text is not a
  digit part. The flag says that the character before was a digit.
\<close>

fun digit_part :: "bool \<Rightarrow> string \<Rightarrow> string option" where
  "digit_part prev [] = (if prev then Some [] else None)"
| "digit_part prev (c # cs) =
     (if is_digit c then map_option ((#) c) (digit_part True cs)
      else if c = CHR ''_'' \<and> prev then digit_part False cs
      else None)"

definition digits_value :: "string \<Rightarrow> nat" where
  "digits_value ds = foldl (\<lambda>a c. 10 * a + digit_val c) 0 ds"

text \<open>The sign in front of a number, and the rest.\<close>

definition split_sign :: "string \<Rightarrow> bool \<times> string" where
  "split_sign s =
     (case s of
        c # cs \<Rightarrow> (if c = CHR ''-'' then (True, cs) else if c = CHR ''+'' then (False, cs) else (False, s))
      | [] \<Rightarrow> (False, s))"

definition int_of_str :: "string \<Rightarrow> exn + int" where
  "int_of_str s =
     (let (neg, body) = split_sign (py_strip s)
      in case digit_part False body of
           None \<Rightarrow> Inl (ValueError, ''invalid literal for int() with base 10: '' @ repr_str s)
         | Some ds \<Rightarrow> Inr (if neg then - int (digits_value ds) else int (digits_value ds)))"

text \<open>
  The mantissa \<open>digits [. [digits]]\<close> or \<open>. digits\<close>: its digits, and how many of them
  stand behind the point.
\<close>

definition mantissa :: "string \<Rightarrow> (string \<times> nat) option" where
  "mantissa s =
     (let ip = takeWhile (\<lambda>c. c \<noteq> CHR ''.'') s;
          rest = dropWhile (\<lambda>c. c \<noteq> CHR ''.'') s
      in if rest = [] then map_option (\<lambda>ds. (ds, 0)) (digit_part False ip)
         else
           (let fp = tl rest
            in if ip = [] then map_option (\<lambda>fs. (fs, length fs)) (digit_part False fp)
               else if fp = [] then map_option (\<lambda>ds. (ds, 0)) (digit_part False ip)
               else (case (digit_part False ip, digit_part False fp) of
                       (Some ds, Some fs) \<Rightarrow> Some (ds @ fs, length fs)
                     | _ \<Rightarrow> None)))"

definition exponent :: "string \<Rightarrow> int option" where
  "exponent s =
     (if s = [] then Some 0
      else
        (let (neg, body) = split_sign (tl s)
         in map_option (\<lambda>ds. if neg then - int (digits_value ds) else int (digits_value ds))
              (digit_part False body)))"

definition scale10 :: "rat \<Rightarrow> int \<Rightarrow> rat" where
  "scale10 m e = (if 0 \<le> e then m * 10 ^ nat e else m / 10 ^ nat (- e))"

definition is_exp_char :: "char \<Rightarrow> bool" where
  "is_exp_char c = (c = CHR ''e'' \<or> c = CHR ''E'')"

definition float_of_str :: "string \<Rightarrow> exn + pyfloat" where
  "float_of_str s =
     (let (neg, body) = split_sign (py_strip s);
          low = py_lower body
      in if low = ''inf'' \<or> low = ''infinity'' then Inr (if neg then NegInf else PosInf)
         else if low = ''nan'' then Inr NaN
         else
           (case (mantissa (takeWhile (\<lambda>c. \<not> is_exp_char c) body),
                  exponent (dropWhile (\<lambda>c. \<not> is_exp_char c) body)) of
              (Some (ds, k), Some e) \<Rightarrow>
                (let m = scale10 (of_nat (digits_value ds)) (e - int k)
                 in Inr (Fin (if neg then - m else m)))
            | _ \<Rightarrow> Inl (ValueError, ''could not convert string to float: '' @ repr_str s)))"

subsection \<open>Arithmetic on floats\<close>

definition float_is_neg :: "pyfloat \<Rightarrow> bool" where
  "float_is_neg x = (case x of Fin r \<Rightarrow> r < 0 | NegInf \<Rightarrow> True | _ \<Rightarrow> False)"

definition float_is_zero :: "pyfloat \<Rightarrow> bool" where
  "float_is_zero x = (case x of Fin r \<Rightarrow> r = 0 | _ \<Rightarrow> False)"

definition signed_inf :: "bool \<Rightarrow> pyfloat" where
  "signed_inf neg = (if neg then NegInf else PosInf)"

definition float_mul :: "pyfloat \<Rightarrow> pyfloat \<Rightarrow> pyfloat" where
  "float_mul a b =
     (case (a, b) of
        (Fin x, Fin y) \<Rightarrow> Fin (x * y)
      | (NaN, _) \<Rightarrow> NaN
      | (_, NaN) \<Rightarrow> NaN
      | _ \<Rightarrow> if float_is_zero a \<or> float_is_zero b then NaN
             else signed_inf (float_is_neg a \<noteq> float_is_neg b))"

text \<open>\<open>a / b\<close> on Python floats: a zero divisor raises.\<close>

definition float_div :: "pyfloat \<Rightarrow> pyfloat \<Rightarrow> exn + pyfloat" where
  "float_div a b =
     (if float_is_zero b then Inl (ZeroDivisionError, ''float division by zero'')
      else Inr
        (case (a, b) of
           (Fin x, Fin y) \<Rightarrow> Fin (x / y)
         | (NaN, _) \<Rightarrow> NaN
         | (_, NaN) \<Rightarrow> NaN
         | (Fin x, _) \<Rightarrow> Fin 0
         | (_, Fin y) \<Rightarrow> signed_inf (float_is_neg a \<noteq> float_is_neg b)
         | _ \<Rightarrow> NaN))"

text \<open>\<open>x * n\<close> for a float and an int: the int is made a float first.\<close>

definition float_mul_int :: "pyfloat \<Rightarrow> int \<Rightarrow> exn + pyfloat" where
  "float_mul_int x n = (case float_of_int n of Inl e \<Rightarrow> Inl e | Inr y \<Rightarrow> Inr (float_mul x y))"

subsection \<open>The two calls of numpy\<close>

text \<open>\<open>data.split(';')\<close>.\<close>

fun split_on :: "char \<Rightarrow> string \<Rightarrow> string list" where
  "split_on sep [] = [[]]"
| "split_on sep (c # cs) =
     (if c = sep then [] # split_on sep cs
      else (case split_on sep cs of p # ps \<Rightarrow> (c # p) # ps | [] \<Rightarrow> [[c]]))"

text \<open>
  \<open>np.array(pieces, dtype='f')\<close>: every piece is read as a number, and one that is none
  raises ValueError. The rounding of the values to single precision is not modelled.
\<close>

fun np_array_f :: "string list \<Rightarrow> exn + pyfloat list" where
  "np_array_f [] = Inr []"
| "np_array_f (p # ps) =
     (case float_of_str p of
        Inl e \<Rightarrow> Inl e
      | Inr x \<Rightarrow> (case np_array_f ps of Inl e \<Rightarrow> Inl e | Inr xs \<Rightarrow> Inr (x # xs)))"

text \<open>
  \<open>np.arange(0, stop, step)\<close> on two Python floats: the length is the ceiling of
  \<open>(stop - 0) / step\<close>, and no entry is made when that is not positive; entry \<open>i\<close> is
  \<open>0 + i * step\<close>.
\<close>

definition np_arange :: "pyfloat \<Rightarrow> pyfloat \<Rightarrow> exn + pyfloat list" where
  "np_arange stop step =
     (case float_div stop step of
        Inl e \<Rightarrow> Inl e
      | Inr NaN \<Rightarrow> Inl (ValueError, ''arange: cannot compute length'')
      | Inr PosInf \<Rightarrow> Inl (OverflowError, ''arange: overflow while computing length'')
      | Inr NegInf \<Rightarrow> Inl (OverflowError, ''arange: overflow while computing length'')
      | Inr (Fin q) \<Rightarrow>
          Inr (map (\<lambda>i. float_mul (Fin (of_nat i)) step) [0 ..< nat \<lceil>q\<rceil>]))"

section \<open>Pulse logging (class \<open>Log\<close>)\<close>

text \<open>
  \<open>int(v)\<close> and \<open>float(v)\<close> on a value. The answers of the instrument and the cached
  values are strings; the other cases are what Python does with the other types.
\<close>

definition py_int :: "pyval \<Rightarrow> exn + int" where
  "py_int v =
     (case v of
        PStr s \<Rightarrow> int_of_str s
      | PInt i \<Rightarrow> Inr i
      | PBool b \<Rightarrow> Inr (if b then 1 else 0)
      | PFloat (Fin r) s \<Rightarrow> Inr (if 0 \<le> r then \<lfloor>r\<rfloor> else \<lceil>r\<rceil>)
      | PFloat NaN s \<Rightarrow> Inl (ValueError, ''cannot convert float NaN to integer'')
      | PFloat x s \<Rightarrow> Inl (OverflowError, ''cannot convert float infinity to integer'')
      | _ \<Rightarrow> Inl (TypeError,
          ''int() argument must be a string, a bytes-like object or a real number, not ''
          @ sq @ type_name v @ sq))"

record log =
  channel :: string
  "values" :: cache
  log_data :: "string \<rightharpoonup> pyfloat list"

text \<open>
  A method of \<open>Log\<close> hands the dictionary \<open>self.values\<close> to \<open>read_write\<close>; what
  \<open>read_write\<close> stores there is stored in the object.
\<close>

definition with_values ::
  "log \<Rightarrow> (exn + pyval) \<times> cache option \<times> 'd world \<Rightarrow> (exn + pyval) \<times> log \<times> 'd world" where
  "with_values L r =
     (fst r, (case fst (snd r) of Some d \<Rightarrow> L\<lparr>values := d\<rparr> | None \<Rightarrow> L), snd (snd r))"

definition sample_length :: "'d bus \<Rightarrow> log \<Rightarrow> pyval \<Rightarrow> 'd world \<Rightarrow> (exn + pyval) \<times> log \<times> 'd world" where
  "sample_length bus L set_sample_length w =
     with_values L (read_write bus
       ('':SENS:'' @ channel L @ '':PULS:SAMP:LENG?'')
       ('':SENS:'' @ channel L @ '':PULS:SAMP:LENG'')
       (VFun validate_sample_length) set_sample_length
       (Some (values L)) (KStr ''sample_length'') w)"

definition sample_channel :: "'d bus \<Rightarrow> log \<Rightarrow> pyval \<Rightarrow> 'd world \<Rightarrow> (exn + pyval) \<times> log \<times> 'd world" where
  "sample_channel bus L set_sample_channel w =
     with_values L (read_write bus
       ('':SENS:'' @ channel L @ '':PULS:MEAS:CHAN?'')
       ('':SENS:'' @ channel L @ '':PULS:MEAS:CHAN'')
       (VFun validate_sample_channel) set_sample_channel
       (Some (values L)) (KStr ''sample_source'') w)"

definition sample_type :: "'d bus \<Rightarrow> log \<Rightarrow> pyval \<Rightarrow> 'd world \<Rightarrow> (exn + pyval) \<times> log \<times> 'd world" where
  "sample_type bus L set_sample_type w =
     with_values L (read_write bus
       ('':SENS:'' @ channel L @ '':PULS:MEAS:TYPE?'')
       ('':SENS:'' @ channel L @ '':PULS:MEAS:TYPE'')
       (VFun validate_sample_type) set_sample_type
       (Some (values L)) (KStr ''sample_type'') w)"

definition sample_interval :: "'d bus \<Rightarrow> log \<Rightarrow> pyval \<Rightarrow> 'd world \<Rightarrow> (exn + pyval) \<times> log \<times> 'd world" where
  "sample_interval bus L set_sample_interval w =
     with_values L (read_write bus
       ('':SENS:'' @ channel L @ '':PULS:SAMP:INT?'')
       ('':SENS:'' @ channel L @ '':PULS:SAMP:INT'')
       (VFun validate_sample_interval) set_sample_interval
       (Some (values L)) (KStr ''sample_interval'') w)"

definition get_pulse_state :: "'d bus \<Rightarrow> log \<Rightarrow> 'd world \<Rightarrow> string \<times> 'd world" where
  "get_pulse_state bus L w = command_read bus ('':SENS:'' @ channel L @ '':PULS:MEAS:STAR?'') w"

text \<open>
  The constructor fills \<open>self.values\<close> with the answers of five queries, made in the order
  of the dictionary display. A getter called without a value returns the answer of its
  query, a string.
\<close>

definition answer_of :: "exn + pyval \<Rightarrow> string" where
  "answer_of r = (case r of Inr (PStr s) \<Rightarrow> s | _ \<Rightarrow> [])"

definition log_init :: "'d bus \<Rightarrow> string \<Rightarrow> 'd world \<Rightarrow> log \<times> 'd world" where
  "log_init bus ch w =
     (let L = \<lparr>channel = ch, values = Map.empty, log_data = Map.empty\<rparr>;
          (a1, w1) = get_pulse_state bus L w;
          (a2, L2, w2) = sample_channel bus L PNone w1;
          (a3, L3, w3) = sample_type bus L2 PNone w2;
          (a4, L4, w4) = sample_interval bus L3 PNone w3;
          (a5, L5, w5) = sample_length bus L4 PNone w4
      in (L5\<lparr>values :=
            [KStr ''sampling_on'' \<mapsto> a1,
             KStr ''sample_channel'' \<mapsto> answer_of a2,
             KStr ''sample_type'' \<mapsto> answer_of a3,
             KStr ''sample_interval'' \<mapsto> answer_of a4,
             KStr ''sample_length'' \<mapsto> answer_of a5]\<rparr>, w5))"

text \<open>\<open>self.values[key]\<close>: a missing key raises KeyError.\<close>

definition values_get :: "log \<Rightarrow> string \<Rightarrow> exn + string" where
  "values_get L key =
     (case values L (KStr key) of None \<Rightarrow> Inl (KeyError, key) | Some v \<Rightarrow> Inr v)"

subsection \<open>\<open>start_sample\<close>\<close>

text \<open>
  The method is modelled in three parts, which \<open>start_sample\<close> runs in a row; an exception
  ends the run where it is raised.

  \<^item> \<open>save_enable_reg\<close>: the first four statements, up to the saving of the Measurement
    Enable register. It returns the saved integer.
  \<^item> \<open>acquire\<close>: from the programming of the register to the warning about a range
    overflow.
  \<^item> the last statement, which writes the saved integer to the register.
\<close>

definition save_enable_reg :: "'d bus \<Rightarrow> log \<Rightarrow> 'd world \<Rightarrow> (exn + int) \<times> log \<times> 'd world" where
  "save_enable_reg bus L w =
     (let L1 = L\<lparr>log_data := Map.empty\<rparr>;
          w1 = clear_error_queue bus w;
          (stale, w2) = get_meas_event_reg bus w1;
          (r, w3) = meas_enable_reg bus PNone w2
      in case r of
           Inl e \<Rightarrow> (Inl e, L1, w3)
         | Inr a \<Rightarrow> (py_int a, L1, w3))"

text \<open>The time axis \<open>np.arange(0, float(interval) * int(length), float(interval))\<close>.\<close>

definition seconds_axis :: "log \<Rightarrow> exn + pyfloat list" where
  "seconds_axis L =
     (case values_get L ''sample_interval'' of Inl e \<Rightarrow> Inl e | Inr iv \<Rightarrow>
      case float_of_str iv of Inl e \<Rightarrow> Inl e | Inr x \<Rightarrow>
      case values_get L ''sample_length'' of Inl e \<Rightarrow> Inl e | Inr len \<Rightarrow>
      case int_of_str len of Inl e \<Rightarrow> Inl e | Inr n \<Rightarrow>
      case float_mul_int x n of Inl e \<Rightarrow> Inl e | Inr stop \<Rightarrow>
      case values_get L ''sample_interval'' of Inl e \<Rightarrow> Inl e | Inr iv2 \<Rightarrow>
      case float_of_str iv2 of Inl e \<Rightarrow> Inl e | Inr step \<Rightarrow>
        np_arange stop step)"

text \<open>The branch taken when the bit \<open>reading_avail\<close> is set.\<close>

definition fetch_samples :: "'d bus \<Rightarrow> log \<Rightarrow> 'd world \<Rightarrow> (exn + unit) \<times> log \<times> 'd world" where
  "fetch_samples bus L w =
     (let (data, w1) = bus_query bus ('':FETC:'' @ channel L @ '':ARR?'') w
      in case values_get L ''sample_channel'' of
           Inl e \<Rightarrow> (Inl e, L, w1)
         | Inr src \<Rightarrow>
             (case np_array_f (split_on CHR '';'' data) of
                Inl e \<Rightarrow> (Inl e, L, w1)
              | Inr samples \<Rightarrow>
                  (let L1 = (if src \<in> set [''CURR'', ''CURRENT'']
                             then L\<lparr>log_data := (log_data L)(''current'' \<mapsto> samples)\<rparr>
                             else L\<lparr>log_data := (log_data L)(''voltage'' \<mapsto> samples)\<rparr>)
                   in case seconds_axis L1 of
                        Inl e \<Rightarrow> (Inl e, L1, w1)
                      | Inr secs \<Rightarrow>
                          (Inr (), L1\<lparr>log_data := (log_data L1)(''seconds'' \<mapsto> secs)\<rparr>, w1))))"

text \<open>The classification of the event register, with the warning that follows it.\<close>

definition classify ::
  "'d bus \<Rightarrow> log \<Rightarrow> int \<Rightarrow> int \<Rightarrow> int \<Rightarrow> int \<Rightarrow> 'd world \<Rightarrow> (exn + unit) \<times> log \<times> 'd world" where
  "classify bus L event_reg reading_avail trigger_timeout meas_overflow w =
     (let (r, L1, w1) =
            (if and event_reg reading_avail \<noteq> 0 then fetch_samples bus L w
             else if and event_reg trigger_timeout \<noteq> 0
               then (Inr (), L, print (''Trigger timeout channel: '' @ channel L) w)
             else (Inr (), L, print (''Unknown error, event: '' @ str_int event_reg) w))
      in case r of
           Inl e \<Rightarrow> (Inl e, L1, w1)
         | Inr u \<Rightarrow>
             (Inr (), L1,
              if and event_reg meas_overflow \<noteq> 0
              then print (''Warning: measurement range overflow on channel: '' @ channel L) w1
              else w1))"

definition acquire :: "'d bus \<Rightarrow> log \<Rightarrow> 'd world \<Rightarrow> (exn + unit) \<times> log \<times> 'd world" where
  "acquire bus L w =
     (let (mask, reading_avail, trigger_timeout, meas_overflow, pulse_start) =
            (if channel L = ''A'' then (56, 32, 16, 8, ''*AARM'')
             else (448, 256, 128, 64, ''*BARM''));
          sre_status_bit = 1;
          (r1, w1) = meas_enable_reg bus (PInt mask) w
      in case r1 of Inl e \<Rightarrow> (Inl e, L, w1) | Inr u1 \<Rightarrow>
         (let (r2, w2) = sre bus (PInt sre_status_bit) w1
          in case r2 of Inl e \<Rightarrow> (Inl e, L, w2) | Inr u2 \<Rightarrow>
             (let w3 = wait bus w2;
                  w4 = command_write bus pulse_start PNone w3;
                  (r5, w5) = bus_wait_for_srq bus 10000 w4
              in case r5 of Inl e \<Rightarrow> (Inl e, L, w5) | Inr u5 \<Rightarrow>
                 (let (r6, w6) = sre bus (PInt 0) w5
                  in case r6 of Inl e \<Rightarrow> (Inl e, L, w6) | Inr u6 \<Rightarrow>
                     (let (answer, w7) = get_meas_event_reg bus w6
                      in case int_of_str answer of
                           Inl e \<Rightarrow> (Inl e, L, w7)
                         | Inr event_reg \<Rightarrow>
                             classify bus L event_reg reading_avail trigger_timeout
                               meas_overflow w7)))))"

definition start_sample :: "'d bus \<Rightarrow> log \<Rightarrow> 'd world \<Rightarrow> (exn + pyval) \<times> log \<times> 'd world" where
  "start_sample bus L w =
     (case save_enable_reg bus L w of
        (Inl e, L1, w1) \<Rightarrow> (Inl e, L1, w1)
      | (Inr enable_reg, L1, w1) \<Rightarrow>
          (case acquire bus L1 w1 of
             (Inl e, L2, w2) \<Rightarrow> (Inl e, L2, w2)
           | (Inr u, L2, w2) \<Rightarrow>
               (let (r, w3) = meas_enable_reg bus (PInt enable_reg) w2 in (r, L2, w3))))"

section \<open>A mocked transport\<close>

text \<open>
  The scenarios below run against a small instrument. It keeps a table of answers by
  query; a query not in the table is answered \<open>0\<close>. A write \<open>HEAD ARG\<close> makes \<open>ARG\<close> in
  upper case the answer of the query \<open>HEAD?\<close>; reading the Measurement Event register
  clears it; \<open>wait_for_srq\<close> returns when \<open>srq\<close> is set, and the events listed in
  \<open>after_srq\<close> are latched by then.
\<close>

record mock =
  answers :: "(string \<times> string) list"
  after_srq :: "(string \<times> string) list"
  srq :: bool

definition mock_write :: "string \<Rightarrow> mock \<Rightarrow> mock" where
  "mock_write command d =
     (let head = takeWhile (\<lambda>c. c \<noteq> CHR '' '') command;
          rest = dropWhile (\<lambda>c. c \<noteq> CHR '' '') command
      in if rest = [] then d
         else d\<lparr>answers := (head @ ''?'', py_upper (tl rest)) # answers d\<rparr>)"

definition mock_query :: "string \<Rightarrow> mock \<Rightarrow> string \<times> mock" where
  "mock_query command d =
     ((case map_of (answers d) command of Some a \<Rightarrow> a | None \<Rightarrow> ''0''),
      (if command = '':STAT:MEAS:EVEN?'' then d\<lparr>answers := (command, ''0'') # answers d\<rparr> else d))"

definition mock_wait_for_srq :: "nat \<Rightarrow> mock \<Rightarrow> mock option" where
  "mock_wait_for_srq timeout d =
     (if srq d then Some (d\<lparr>answers := after_srq d @ answers d\<rparr>) else None)"

definition mock_bus :: "mock bus" where
  "mock_bus = \<lparr>write_fn = mock_write, query_fn = mock_query, wait_for_srq_fn = mock_wait_for_srq\<rparr>"

definition mock_world :: "(string \<times> string) list \<Rightarrow> (string \<times> string) list \<Rightarrow> mock world" where
  "mock_world table events =
     \<lparr>instrument = \<lparr>answers = table, after_srq = events, srq = True\<rparr>, bus_log = [], stdout = []\<rparr>"

text \<open>
  An instrument set up for pulse logging on channel A: the source of the samples is the
  DVM input, 100 samples are taken 0.01 s apart, and the Measurement Enable register
  holds 5. The three worlds differ in what the instrument does once armed: it delivers
  three samples, it reports a trigger timeout, or it delivers an array that is no list of
  numbers.
\<close>

definition bench_table :: "(string \<times> string) list" where
  "bench_table =
     [('':SENS:A:PULS:MEAS:STAR?'', ''0''),
      ('':SENS:A:PULS:MEAS:CHAN?'', ''DVM''),
      ('':SENS:A:PULS:MEAS:TYPE?'', ''AVER''),
      ('':SENS:A:PULS:SAMP:INT?'', ''0.01''),
      ('':SENS:A:PULS:SAMP:LENG?'', ''100''),
      ('':STAT:MEAS:ENAB?'', ''5''),
      ('':FETC:A:ARR?'', ''1.0;2.0;3.0'')]"

definition bench :: "mock world" where
  "bench = mock_world bench_table [('':STAT:MEAS:EVEN?'', ''32'')]"

definition bench_timeout :: "mock world" where
  "bench_timeout = mock_world bench_table [('':STAT:MEAS:EVEN?'', ''16'')]"

definition bench_garbled :: "mock world" where
  "bench_garbled =
     mock_world (('':FETC:A:ARR?'', ''abc'') # bench_table) [('':STAT:MEAS:EVEN?'', ''32'')]"

text \<open>The \<open>Log\<close> object made for channel A in such a world, and the world after its construction.\<close>

definition log_A :: "mock world \<Rightarrow> log" where
  "log_A w = fst (log_init mock_bus ''A'' w)"

definition constructed :: "mock world \<Rightarrow> mock world" where
  "constructed w = snd (log_init mock_bus ''A'' w)"


section \<open>The dispatcher\<close>

text \<open>
  C10. Whatever is passed to \<open>Common.opc\<close>, the argument is bound to the parameter
  \<open>validator\<close> of \<open>read_write\<close> and \<open>value\<close> stays \<open>None\<close>: the call makes one bus
  operation, the query \<open>*OPC?\<close>, and returns its answer. No \<open>*OPC\<close> command is written.
\<close>

theorem opc_takes_read_path:
  "opc bus r w =
     (Inr (PStr (fst (query_fn bus ''*OPC?'' (instrument w)))),
      w\<lparr>instrument := snd (query_fn bus ''*OPC?'' (instrument w)),
        bus_log := bus_log w @ [BusQuery ''*OPC?'' (fst (query_fn bus ''*OPC?'' (instrument w)))]\<rparr>)"
  by (simp add: opc_def no_cache_def read_write_def bus_query_def split: prod.splits)

text \<open>
  C2. A call of \<open>read_write\<close> with a value that the validator accepts, and with a
  dictionary and a key, makes exactly two bus operations: the write of the command, then
  the query. The dictionary holds the answer of that query under the key afterwards,
  whatever the value was.
\<close>

theorem read_write_valid:
  assumes "value \<noteq> PNone" and "f value = Inr val" and "\<not> is_validation_error val"
  shows "read_write bus query wr (VFun f) value (Some d) key w =
           (Inr PNone,
            Some (d(key \<mapsto> fst (bus_query bus query (bus_write bus (wr @ '' '' @ py_str value) w)))),
            snd (bus_query bus query (bus_write bus (wr @ '' '' @ py_str value) w)))
         \<and> bus_log (snd (bus_query bus query (bus_write bus (wr @ '' '' @ py_str value) w))) =
             bus_log w @ [BusWrite (wr @ '' '' @ py_str value),
               BusQuery query (fst (bus_query bus query (bus_write bus (wr @ '' '' @ py_str value) w)))]"
  using assms
  by (simp add: read_write_def send_and_requery_def bus_query_def bus_write_def split: prod.splits)

text \<open>
  On the mocked instrument, which answers in upper case: after setting the voltage to
  \<open>max\<close> the dictionary holds the answer \<open>MAX\<close>, not the input.
\<close>

theorem read_write_valid_witness:
  "PStr ''max'' \<noteq> PNone \<and> voltage (PStr ''max'') = Inr (PStr ''MAX'')
   \<and> \<not> is_validation_error (PStr ''MAX'')
   \<and> fst (read_write mock_bus '':SOUR:A:VOLT?'' '':SOUR:A:VOLT'' (VFun voltage) (PStr ''max'')
        (Some Map.empty) (KStr ''voltage'') (mock_world [] [])) = Inr PNone
   \<and> the (fst (snd (read_write mock_bus '':SOUR:A:VOLT?'' '':SOUR:A:VOLT'' (VFun voltage)
        (PStr ''max'') (Some Map.empty) (KStr ''voltage'') (mock_world [] [])))) (KStr ''voltage'')
       = Some ''MAX''
   \<and> bus_log (snd (snd (read_write mock_bus '':SOUR:A:VOLT?'' '':SOUR:A:VOLT'' (VFun voltage)
        (PStr ''max'') (Some Map.empty) (KStr ''voltage'') (mock_world [] [])))) =
       [BusWrite '':SOUR:A:VOLT max'', BusQuery '':SOUR:A:VOLT?'' ''MAX'']"
proof -
  have a1: "PStr ''max'' \<noteq> PNone" by simp
  have a2: "voltage (PStr ''max'') = Inr (PStr ''MAX'')" by code_simp
  have a3: "\<not> is_validation_error (PStr ''MAX'')" by (simp add: is_validation_error_def)
  have answer: "fst (bus_query mock_bus '':SOUR:A:VOLT?''
      (bus_write mock_bus ('':SOUR:A:VOLT'' @ '' '' @ py_str (PStr ''max'')) (mock_world [] []))) = ''MAX''"
    by code_simp
  have trace: "bus_log (mock_world [] []) = []" by (simp add: mock_world_def)
  have cmd: "'':SOUR:A:VOLT'' @ '' '' @ py_str (PStr ''max'') = '':SOUR:A:VOLT max''"
    by (simp add: py_str_def)
  note t = read_write_valid [where f = voltage and val = "PStr ''MAX''"
      and bus = mock_bus and query = "'':SOUR:A:VOLT?''" and wr = "'':SOUR:A:VOLT''"
      and d = Map.empty and key = "KStr ''voltage''" and w = "mock_world [] []",
      OF a1 a2 a3]
  show ?thesis using a1 a2 a3 t answer trace cmd by simp
qed

text \<open>
  C6. A call of \<open>read_write\<close> with a value that the validator rejects with a ValueError or
  a TypeError prints the warning and does nothing else: the trace of the bus and the
  instrument are as before, the dictionary is as it was given, and the call returns
  \<open>None\<close>.
\<close>

theorem read_write_invalid:
  assumes "value \<noteq> PNone" and "f value = Inr val" and "is_validation_error val"
  shows "read_write bus query wr (VFun f) value value_dict key w =
           (Inr PNone, value_dict, w\<lparr>stdout := stdout w @ [error_text WARNING val]\<rparr>)"
  using assms by (simp add: read_write_def print_def)

theorem read_write_invalid_witness:
  "PInt 17 \<noteq> PNone \<and> is_validation_error (projr (voltage (PInt 17)))
   \<and> voltage (PInt 17) = Inr (projr (voltage (PInt 17)))
   \<and> read_write mock_bus '':SOUR:A:VOLT?'' '':SOUR:A:VOLT'' (VFun voltage) (PInt 17)
        (Some Map.empty) (KStr ''voltage'') (mock_world [] []) =
      (Inr PNone, Some Map.empty,
       (mock_world [] [])\<lparr>stdout := [error_text WARNING (projr (voltage (PInt 17)))]\<rparr>)"
proof -
  have a1: "PInt 17 \<noteq> PNone" by simp
  have a2: "voltage (PInt 17) = Inr (projr (voltage (PInt 17)))" by code_simp
  have a3: "is_validation_error (projr (voltage (PInt 17)))" by code_simp
  have out: "stdout (mock_world [] []) = []" by (simp add: mock_world_def)
  note t = read_write_invalid [where f = voltage and val = "projr (voltage (PInt 17))"
      and bus = mock_bus and query = "'':SOUR:A:VOLT?''" and wr = "'':SOUR:A:VOLT''"
      and value_dict = "Some Map.empty" and key = "KStr ''voltage''" and w = "mock_world [] []",
      OF a1 a2 a3]
  show ?thesis using a1 a2 a3 t out by simp
qed

text \<open>
  C3. The claim is that the command sent is the write token, a space and the canonical
  token that the validator returned. \<open>read_write\<close> appends \<open>str(value)\<close>, the input as
  it was passed: for the input \<open>max\<close> the validator returns \<open>MAX\<close> and the command sent
  is \<open>:SOUR:A:VOLT max\<close>.
\<close>

theorem read_write_sends_raw_input:
  "voltage (PStr ''max'') = Inr (PStr ''MAX'')
   \<and> bus_log (snd (snd (read_write mock_bus '':SOUR:A:VOLT?'' '':SOUR:A:VOLT'' (VFun voltage)
        (PStr ''max'') (Some Map.empty) (KStr ''voltage'') (mock_world [] [])))) =
       [BusWrite '':SOUR:A:VOLT max'', BusQuery '':SOUR:A:VOLT?'' ''MAX'']"
  by code_simp

section \<open>The validators\<close>

text \<open>
  C1. The claim is that a string is accepted exactly when it is, up to case, an entry of
  the alias set. The validator looks for the lowered string in the lowered text of the
  whole tuple, \<open>('min', 'max', 'def', 'default')\<close>, so every piece of that text is
  accepted: the string \<open>m\<close> is accepted with the canonical form \<open>M\<close>, and so are the empty
  string and the text between two entries.
\<close>

theorem voltage_accepts_piece_of_alias:
  "voltage (PStr ''m'') = Inr (PStr ''M'')
   \<and> voltage (PStr []) = Inr (PStr [])
   \<and> voltage (PStr (sq @ '', '' @ sq)) = Inr (PStr (sq @ '', '' @ sq))"
  by code_simp

text \<open>
  C7. The claim is that the validator of the 8-bit registers accepts the integers from 0
  to 255. Its range is \<open>(0, 128)\<close>: 128 is accepted, 129 and 255 are rejected with a
  ValueError.
\<close>

theorem register_8_rejects_255:
  "register_8 (PInt 128) = Inr (PStr ''128'')
   \<and> register_8 (PInt 129) =
        Inr (PExn ValueError (''ValueError!'' @ nl @ ''Not in range:(int) (0, 128)''))
   \<and> register_8 (PInt 255) =
        Inr (PExn ValueError (''ValueError!'' @ nl @ ''Not in range:(int) (0, 128)''))"
  by code_simp

section \<open>Acquisition runs\<close>


text \<open>
  C5. The claim is that the series is stored as current samples exactly when the source
  last confirmed by \<open>sample_channel\<close> is \<open>CURR\<close> or \<open>CURRENT\<close>. \<open>sample_channel\<close> stores the
  confirmed answer under the key \<open>sample_source\<close>, and \<open>start_sample\<close> reads the key
  \<open>sample_channel\<close>, which holds the answer that the constructor got. Here the
  instrument reports \<open>DVM\<close> at construction; the source is then set to \<open>curr\<close> and the
  instrument confirms \<open>CURR\<close>; the run that follows stores its series as voltage samples.
\<close>

theorem sample_source_key_mismatch:
  "(let (L0, w0) = log_init mock_bus ''A'' bench;
        (r1, L1, w1) = sample_channel mock_bus L0 (PStr ''curr'') w0;
        (r2, L2, w2) = start_sample mock_bus L1 w1
    in r1 = Inr PNone
       \<and> fst (bus_query mock_bus '':SENS:A:PULS:MEAS:CHAN?'' w1) = ''CURR''
       \<and> values L1 (KStr ''sample_source'') = Some ''CURR''
       \<and> values L1 (KStr ''sample_channel'') = Some ''DVM''
       \<and> r2 = Inr PNone
       \<and> log_data L2 ''current'' = None
       \<and> log_data L2 ''voltage'' = Some [Fin 1, Fin 2, Fin 3])"
  by code_simp

subsection \<open>The trace only grows\<close>

text \<open>Every operation of the driver appends to the trace of the bus.\<close>

lemma bus_write_log: "bus_log (bus_write bus c w) = bus_log w @ [BusWrite c]"
  by (simp add: bus_write_def)

lemma bus_query_log:
  "bus_log (snd (bus_query bus c w)) = bus_log w @ [BusQuery c (fst (bus_query bus c w))]"
  by (simp add: bus_query_def split: prod.splits)

lemma print_log: "bus_log (print l w) = bus_log w"
  by (simp add: print_def)

lemma command_write_ext: "\<exists>ops. bus_log (command_write bus c v w) = bus_log w @ ops"
  by (simp add: command_write_def bus_write_log print_log)

lemma send_and_requery_ext:
  "\<exists>ops. bus_log (snd (snd (send_and_requery bus q c v d k w))) = bus_log w @ ops"
  by (cases d) (simp_all add: send_and_requery_def bus_write_def bus_query_def Let_def split: prod.splits)

lemma read_write_ext:
  "\<exists>ops. bus_log (snd (snd (read_write bus q c f v d k w))) = bus_log w @ ops"
proof (cases "v = PNone")
  case True
  then show ?thesis by (simp add: read_write_def bus_query_def split: prod.splits)
next
  case False
  show ?thesis
  proof (cases f)
    case VNone
    with False show ?thesis by (simp add: read_write_def send_and_requery_ext)
  next
    case (VFun g)
    with False show ?thesis
      by (simp add: read_write_def send_and_requery_ext print_log split: sum.splits)
  next
    case (VObj x)
    with False show ?thesis by (simp add: read_write_def)
  qed
qed

lemma meas_enable_reg_ext: "\<exists>ops. bus_log (snd (meas_enable_reg bus v w)) = bus_log w @ ops"
  by (simp add: meas_enable_reg_def no_cache_def read_write_ext)

lemma sre_ext: "\<exists>ops. bus_log (snd (sre bus v w)) = bus_log w @ ops"
  by (simp add: sre_def no_cache_def read_write_ext)

lemma wait_ext: "\<exists>ops. bus_log (wait bus w) = bus_log w @ ops"
  by (simp add: wait_def command_write_ext)

lemma bus_wait_for_srq_ext: "\<exists>ops. bus_log (snd (bus_wait_for_srq bus t w)) = bus_log w @ ops"
  by (simp add: bus_wait_for_srq_def Let_def split: option.splits)

lemma get_meas_event_reg_ext: "\<exists>ops. bus_log (snd (get_meas_event_reg bus w)) = bus_log w @ ops"
  by (simp add: get_meas_event_reg_def command_read_def bus_query_log)

lemma fetch_samples_ext: "\<exists>ops. bus_log (snd (snd (fetch_samples bus L w))) = bus_log w @ ops"
  by (simp add: fetch_samples_def bus_query_def Let_def split: prod.splits sum.splits)

lemma classify_ext:
  "\<exists>ops. bus_log (snd (snd (classify bus L ev ra tt mo w))) = bus_log w @ ops"
  using fetch_samples_ext [of bus L w]
  by (auto simp: classify_def print_log Let_def split: prod.splits sum.splits)

lemma ext_trans:
  "\<exists>ops. bus_log w1 = bus_log w @ ops \<Longrightarrow> \<exists>ops. bus_log w2 = bus_log w1 @ ops
   \<Longrightarrow> \<exists>ops. bus_log w2 = bus_log w @ ops"
  by auto

lemma acquire_ext: "\<exists>ops. bus_log (snd (snd (acquire bus L w))) = bus_log w @ ops"
proof -
  obtain mask ra tt mo ps where lay:
    "(if channel L = ''A'' then (56, 32, 16, 8, ''*AARM'') else (448::int, 256::int, 128::int, 64::int, ''*BARM''))
       = (mask, ra, tt, mo, ps)"
    by (cases "channel L = ''A''") simp_all
  obtain r1 w1 where s1: "meas_enable_reg bus (PInt mask) w = (r1, w1)" by fastforce
  obtain r2 w2 where s2: "sre bus (PInt 1) w1 = (r2, w2)" by fastforce
  obtain r5 w5 where s5:
    "bus_wait_for_srq bus 10000 (command_write bus ps PNone (wait bus w2)) = (r5, w5)" by fastforce
  obtain r6 w6 where s6: "sre bus (PInt 0) w5 = (r6, w6)" by fastforce
  obtain a7 w7 where s7: "get_meas_event_reg bus w6 = (a7, w7)" by fastforce
  have e1: "\<exists>ops. bus_log w1 = bus_log w @ ops"
    using meas_enable_reg_ext [of bus "PInt mask" w] s1 by simp
  have e2: "\<exists>ops. bus_log w2 = bus_log w @ ops"
    using sre_ext [of bus "PInt 1" w1] s2 e1 by auto
  have e3: "\<exists>ops. bus_log (wait bus w2) = bus_log w @ ops"
    using wait_ext [of bus w2] e2 by auto
  have e4: "\<exists>ops. bus_log (command_write bus ps PNone (wait bus w2)) = bus_log w @ ops"
    using command_write_ext [of bus ps PNone "wait bus w2"] e3 by auto
  have e5: "\<exists>ops. bus_log w5 = bus_log w @ ops"
    using bus_wait_for_srq_ext [of bus 10000 "command_write bus ps PNone (wait bus w2)"] s5 e4
    by auto
  have e6: "\<exists>ops. bus_log w6 = bus_log w @ ops"
    using sre_ext [of bus "PInt 0" w5] s6 e5 by auto
  have e7: "\<exists>ops. bus_log w7 = bus_log w @ ops"
    using get_meas_event_reg_ext [of bus w6] s7 e6 by auto
  have e8: "\<exists>ops. bus_log (snd (snd (classify bus L ev ra tt mo w7))) = bus_log w @ ops" for ev
    using classify_ext [of bus L ev ra tt mo w7] e7 by auto
  show ?thesis
    using lay s1 s2 s5 s6 s7 e1 e2 e5 e6 e7 e8
    by (simp add: acquire_def Let_def split: sum.splits)
qed

lemma restore_enable_reg:
  assumes "0 \<le> e" and "e \<le> 65535"
  shows "meas_enable_reg bus (PInt e) w =
           (Inr PNone, bus_write bus ('':STAT:MEAS:ENAB '' @ str_int e) w)"
  using assms
  by (simp add: meas_enable_reg_def no_cache_def read_write_def register_16_def int_rng_tuple_def
      isinstance_int_def int_of_def int_range_def is_validation_error_def send_and_requery_def
      py_str_def)

lemma save_enable_reg_log:
  "\<exists>a0 a1. bus_log (snd (snd (save_enable_reg bus L w))) =
       bus_log w @ [BusWrite '':SYST:CLE'', BusQuery '':STAT:MEAS:EVEN?'' a0,
                    BusQuery '':STAT:MEAS:ENAB?'' a1]
     \<and> fst (save_enable_reg bus L w) = int_of_str a1"
  by (simp add: save_enable_reg_def clear_error_queue_def command_write_def bus_write_def
      get_meas_event_reg_def command_read_def bus_query_def meas_enable_reg_def no_cache_def
      read_write_def py_int_def Let_def split: prod.splits)

text \<open>
  C4. The claim is that every run in which the wait returns ends with the write of the
  saved value to the Measurement Enable register. The driver has no handler around the
  run, so an exception raised after the wait ends the run without that write; and the
  write goes through the validator of the 16-bit registers, which sends nothing for a
  value outside 0..65535. What holds: in every run that completes without an exception
  (the wait then returned) and whose saved value lies in 0..65535, the trace of the run
  begins with the clearing of the error queue, the read of the event register and the
  read of the Enable register, whose answer is the saved value, and it ends with the
  write of that value to the Enable register.
\<close>

theorem start_sample_restores_enable_reg:
  assumes fin: "fst (start_sample bus L w) = Inr r"
    and saved: "fst (save_enable_reg bus L w) = Inr e"
    and range: "0 \<le> e" "e \<le> 65535"
  shows "\<exists>a0 a1 ops. bus_log (snd (snd (start_sample bus L w))) =
           bus_log w @ [BusWrite '':SYST:CLE'', BusQuery '':STAT:MEAS:EVEN?'' a0,
                        BusQuery '':STAT:MEAS:ENAB?'' a1]
             @ ops @ [BusWrite ('':STAT:MEAS:ENAB '' @ str_int e)]
         \<and> int_of_str a1 = Inr e"
proof -
  obtain L1 w1 where s: "save_enable_reg bus L w = (Inr e, L1, w1)"
    using saved by (cases "save_enable_reg bus L w") auto
  obtain a0 a1 where log1:
    "bus_log w1 = bus_log w @ [BusWrite '':SYST:CLE'', BusQuery '':STAT:MEAS:EVEN?'' a0,
                    BusQuery '':STAT:MEAS:ENAB?'' a1]"
    and a1: "int_of_str a1 = Inr e"
    using save_enable_reg_log [of bus L w] s by auto
  obtain r2 L2 w2 where a: "acquire bus L1 w1 = (r2, L2, w2)"
    by (cases "acquire bus L1 w1") auto
  have ok: "\<exists>u. r2 = Inr u"
    using fin s a by (cases r2) (simp_all add: start_sample_def)
  obtain ops where log2: "bus_log w2 = bus_log w1 @ ops"
    using acquire_ext [of bus L1 w1] a by auto
  have "snd (snd (start_sample bus L w)) = bus_write bus ('':STAT:MEAS:ENAB '' @ str_int e) w2"
    using s a ok range by (auto simp: start_sample_def restore_enable_reg)
  then have "bus_log (snd (snd (start_sample bus L w))) =
      bus_log w @ [BusWrite '':SYST:CLE'', BusQuery '':STAT:MEAS:EVEN?'' a0,
                   BusQuery '':STAT:MEAS:ENAB?'' a1] @ ops @ [BusWrite ('':STAT:MEAS:ENAB '' @ str_int e)]"
    using log1 log2 by (simp add: bus_write_log)
  with a1 show ?thesis by blast
qed

text \<open>A run that ends with a trigger timeout, on the instrument whose Enable register holds 5.\<close>

theorem start_sample_restores_enable_reg_witness:
  "fst (start_sample mock_bus (log_A bench_timeout) (constructed bench_timeout)) = Inr PNone
   \<and> fst (save_enable_reg mock_bus (log_A bench_timeout) (constructed bench_timeout)) = Inr 5
   \<and> (0::int) \<le> 5 \<and> (5::int) \<le> 65535
   \<and> (\<exists>a0 a1 ops.
         bus_log (snd (snd (start_sample mock_bus (log_A bench_timeout) (constructed bench_timeout)))) =
           bus_log (constructed bench_timeout)
             @ [BusWrite '':SYST:CLE'', BusQuery '':STAT:MEAS:EVEN?'' a0,
                BusQuery '':STAT:MEAS:ENAB?'' a1]
             @ ops @ [BusWrite ('':STAT:MEAS:ENAB '' @ str_int 5)]
         \<and> int_of_str a1 = Inr 5)
   \<and> stdout (snd (snd (start_sample mock_bus (log_A bench_timeout) (constructed bench_timeout)))) =
        [''Trigger timeout channel: A'']"
proof -
  have h1: "fst (start_sample mock_bus (log_A bench_timeout) (constructed bench_timeout)) = Inr PNone"
    by code_simp
  have h2: "fst (save_enable_reg mock_bus (log_A bench_timeout) (constructed bench_timeout)) = Inr 5"
    by code_simp
  have h3: "(0::int) \<le> 5" and h4: "(5::int) \<le> 65535" by simp_all
  have out: "stdout (snd (snd (start_sample mock_bus (log_A bench_timeout) (constructed bench_timeout)))) =
        [''Trigger timeout channel: A'']"
    by code_simp
  note t = start_sample_restores_enable_reg [OF h1 h2 h3 h4]
  show ?thesis using h1 h2 t out by simp
qed

text \<open>
  The run in which the array delivered is no list of numbers: the wait returns, the
  conversion of the data raises ValueError, and the last bus operation is the fetch. The
  Enable register, 5 before the run, is left at 56.
\<close>

theorem garbled_data_skips_restore:
  "fst (save_enable_reg mock_bus (log_A bench_garbled) (constructed bench_garbled)) = Inr 5
   \<and> fst (start_sample mock_bus (log_A bench_garbled) (constructed bench_garbled)) =
        Inl (ValueError, ''could not convert string to float: '' @ sq @ ''abc'' @ sq)
   \<and> drop (length (bus_log (constructed bench_garbled)))
        (bus_log (snd (snd (start_sample mock_bus (log_A bench_garbled) (constructed bench_garbled))))) =
        [BusWrite '':SYST:CLE'', BusQuery '':STAT:MEAS:EVEN?'' ''0'',
         BusQuery '':STAT:MEAS:ENAB?'' ''5'', BusWrite '':STAT:MEAS:ENAB 56'',
         BusWrite ''*SRE 1'', BusWrite ''*WAI'', BusWrite ''*AARM'', BusWaitSrq 10000,
         BusWrite ''*SRE 0'', BusQuery '':STAT:MEAS:EVEN?'' ''32'',
         BusQuery '':FETC:A:ARR?'' ''abc'']
   \<and> last (bus_log (snd (snd (start_sample mock_bus (log_A bench_garbled) (constructed bench_garbled)))))
        \<noteq> BusWrite '':STAT:MEAS:ENAB 5''
   \<and> fst (bus_query mock_bus '':STAT:MEAS:ENAB?''
        (snd (snd (start_sample mock_bus (log_A bench_garbled) (constructed bench_garbled))))) = ''56''"
  by code_simp

section \<open>Validation errors\<close>














section \<open>What the code accepts\<close>

text \<open>
  The validator of the 8-bit registers accepts exactly the integers from 0 to 128.
\<close>

lemma register_8_accepts_iff:
  "(\<exists>s. register_8 (PInt i) = Inr (PStr s)) = (0 \<le> i \<and> i \<le> 128)"
  by (auto simp: register_8_def int_rng_tuple_def isinstance_int_def int_of_def int_range_def
      Let_def)

text \<open>
  A string is accepted by a range-or-alias validator exactly when, lowered, it occurs in
  the lowered text of the alias tuple.
\<close>

lemma float_rng_accepts_str_iff:
  "(\<exists>t. float_rng_and_str_tuples vs (PStr s) n = Inr (PStr t))
     = str_contains (py_lower s) (py_lower (repr_strs (snd vs)))"
  by (auto simp: float_rng_and_str_tuples_def isinstance_float_int_def isinstance_int_def
      isinstance_str_def str_of_def find_element_def Let_def)

text \<open>
  A float is accepted by a range-or-alias validator exactly when, rounded to the
  resolution, it lies between the two bounds.
\<close>

lemma float_rng_accepts_float_iff:
  "(\<exists>t. float_rng_and_str_tuples vs (PFloat x c) n = Inr (PStr t))
     = (float_le (num_val (fst (fst vs))) (py_round x n)
        \<and> float_le (py_round x n) (num_val (snd (fst vs))))"
  by (auto simp: float_rng_and_str_tuples_def isinstance_float_int_def py_float_def
      float_range_def Let_def)

text \<open>
  \<open>read_write\<close> without a value makes the query, returns its answer and leaves the
  dictionary as it is, whatever the validator.
\<close>

lemma read_write_without_value:
  "read_write bus query wr validator PNone value_dict key w =
     (Inr (PStr (fst (bus_query bus query w))), value_dict, snd (bus_query bus query w))"
  by (simp add: read_write_def split: prod.splits)

end
